theory Spec2Isabelle
  imports Complex_Main
begin

section \<open>VRM licence listing and folder sorting (list\_license.py)\<close>

text \<open>
  The script reads the JSON chunk of a VRM (glTF binary) file, turns the \<open>meta\<close> object of
  either VRM generation into one dictionary of licence fields, and moves files into folders
  by rules read from \<open>mapdata.json\<close>. This theory embeds the functions that work on the
  parsed JSON: \<open>normalize_for_compare\<close>, the two \<open>get_license_info\<close> methods,
  \<open>VRMParser.parse\<close> and \<open>sort_files_by_mapdata\<close>.

  Modelling conventions.
  \<^item> A parsed JSON value is a \<open>json\<close>. A Python \<open>dict\<close> is an association list in
    insertion order; the dictionaries \<open>json.load\<close> returns have pairwise distinct keys, and
    a lookup in the model takes the first pair with the key. A Python \<open>float\<close> is the rational
    number it denotes (\<open>nan\<close> and the infinities are left out).
  \<^item> A Python \<open>str\<close> is a \<open>string\<close> read as UTF-8 bytes. \<open>strip\<close> and \<open>lower\<close>
    are modelled on the ASCII range and leave the bytes from 128 on alone, so the model is
    exact on ASCII text.
  \<^item> Every exception the code can raise on JSON input is a value \<open>Inl e\<close> of \<open>error + 'a\<close>.
  \<^item> The file system is not modelled: creating a directory and moving a file are taken to
    succeed, and a pass over a list of files returns the moves it made, in order.
\<close>

subsection \<open>JSON values and the Python operations used on them\<close>

datatype json =
    JNull
  | JBool bool
  | JInt int
  | JFloat rat
  | JStr string
  | JArr "json list"
  | JObj "(string \<times> json) list"

datatype error = KeyError | TypeError | AttributeError | ValueError | IndexError

text \<open>Sequencing of calls that may raise: the first exception ends the computation.\<close>

fun bind_e :: "error + 'a \<Rightarrow> ('a \<Rightarrow> error + 'b) \<Rightarrow> error + 'b" where
  "bind_e (Inl e) f = Inl e"
| "bind_e (Inr x) f = f x"

text \<open>Truth value of an object, as \<open>if x:\<close> and \<open>not x\<close> test it.\<close>

fun truthy :: "json \<Rightarrow> bool" where
  "truthy JNull = False"
| "truthy (JBool b) = b"
| "truthy (JInt i) = (i \<noteq> 0)"
| "truthy (JFloat r) = (r \<noteq> 0)"
| "truthy (JStr s) = (s \<noteq> [])"
| "truthy (JArr xs) = (xs \<noteq> [])"
| "truthy (JObj kvs) = (kvs \<noteq> [])"

text \<open>
  The number a \<open>bool\<close>, \<open>int\<close> or \<open>float\<close> stands for: Python compares the three
  numeric types by value (\<open>True == 1 == 1.0\<close>).
\<close>

fun numeric :: "json \<Rightarrow> rat option" where
  "numeric (JBool b) = Some (if b then 1 else 0)"
| "numeric (JInt i) = Some (of_int i)"
| "numeric (JFloat r) = Some r"
| "numeric _ = None"

text \<open>
  Python's \<open>==\<close> on parsed JSON: \<open>None\<close> equals only itself, numbers compare by value,
  strings and lists compare componentwise, dictionaries compare as maps (same keys, equal
  values), and values of different kinds are unequal.
\<close>

fun py_eq :: "json \<Rightarrow> json \<Rightarrow> bool"
  and py_eq_list :: "json list \<Rightarrow> json list \<Rightarrow> bool"
  and py_eq_items :: "(string \<times> json) list \<Rightarrow> (string \<times> json) list \<Rightarrow> bool" where
  "py_eq JNull y = (y = JNull)"
| "py_eq (JStr a) y = (y = JStr a)"
| "py_eq (JArr xs) y = (case y of JArr ys \<Rightarrow> py_eq_list xs ys | _ \<Rightarrow> False)"
| "py_eq (JObj a) y =
     (case y of JObj b \<Rightarrow> set (map fst a) = set (map fst b) \<and> py_eq_items a b | _ \<Rightarrow> False)"
| "py_eq (JBool b) y = (case numeric y of None \<Rightarrow> False | Some r \<Rightarrow> numeric (JBool b) = Some r)"
| "py_eq (JInt i) y = (case numeric y of None \<Rightarrow> False | Some r \<Rightarrow> numeric (JInt i) = Some r)"
| "py_eq (JFloat q) y = (case numeric y of None \<Rightarrow> False | Some r \<Rightarrow> numeric (JFloat q) = Some r)"
| "py_eq_list [] ys = (ys = [])"
| "py_eq_list (x # xs) ys = (case ys of [] \<Rightarrow> False | y # ys' \<Rightarrow> py_eq x y \<and> py_eq_list xs ys')"
| "py_eq_items [] b = True"
| "py_eq_items ((k, v) # a) b =
     ((case map_of b k of None \<Rightarrow> False | Some w \<Rightarrow> py_eq v w) \<and> py_eq_items a b)"

text \<open>\<open>x in ys\<close> for a list \<open>ys\<close>: some member equals \<open>x\<close>.\<close>

fun py_in_list :: "json \<Rightarrow> json list \<Rightarrow> bool" where
  "py_in_list x [] = False"
| "py_in_list x (y # ys) = (py_eq x y \<or> py_in_list x ys)"

text \<open>\<open>k in s\<close> for two strings: \<open>k\<close> occurs in \<open>s\<close> as a substring.\<close>

fun is_substr :: "string \<Rightarrow> string \<Rightarrow> bool" where
  "is_substr k [] = (k = [])"
| "is_substr k (c # s) = (take (length k) (c # s) = k \<or> is_substr k s)"

text \<open>
  \<open>k in x\<close> for a string \<open>k\<close>: key membership in a dictionary, element membership in a
  list, substring test in a string, and \<open>TypeError\<close> on \<open>None\<close>, booleans and numbers.
\<close>

fun py_in :: "string \<Rightarrow> json \<Rightarrow> error + bool" where
  "py_in k (JObj kvs) = Inr (k \<in> set (map fst kvs))"
| "py_in k (JArr xs) = Inr (py_in_list (JStr k) xs)"
| "py_in k (JStr s) = Inr (is_substr k s)"
| "py_in k _ = Inl TypeError"

text \<open>
  \<open>x[k]\<close> for a string \<open>k\<close>: \<open>KeyError\<close> on a dictionary without the key,
  \<open>TypeError\<close> on everything that is not a dictionary.
\<close>

fun py_getitem :: "json \<Rightarrow> string \<Rightarrow> error + json" where
  "py_getitem (JObj kvs) k = (case map_of kvs k of None \<Rightarrow> Inl KeyError | Some v \<Rightarrow> Inr v)"
| "py_getitem _ k = Inl TypeError"

text \<open>\<open>d.get(k, default)\<close>: only a dictionary has the method.\<close>

definition dict_get :: "(string \<times> json) list \<Rightarrow> string \<Rightarrow> json \<Rightarrow> json" where
  "dict_get kvs k dflt = (case map_of kvs k of None \<Rightarrow> dflt | Some v \<Rightarrow> v)"

fun py_get :: "json \<Rightarrow> string \<Rightarrow> json \<Rightarrow> error + json" where
  "py_get (JObj kvs) k dflt = Inr (dict_get kvs k dflt)"
| "py_get _ k dflt = Inl AttributeError"

text \<open>\<open>d.items()\<close>: only a dictionary has the method.\<close>

fun py_items :: "json \<Rightarrow> error + (string \<times> json) list" where
  "py_items (JObj kvs) = Inr kvs"
| "py_items _ = Inl AttributeError"

text \<open>
  The members a \<open>for\<close> loop visits: the elements of a list, the keys of a dictionary, the
  one-character strings of a string; the other values are not iterable.
\<close>

fun py_iter :: "json \<Rightarrow> error + json list" where
  "py_iter (JArr xs) = Inr xs"
| "py_iter (JObj kvs) = Inr (map (\<lambda>kv. JStr (fst kv)) kvs)"
| "py_iter (JStr s) = Inr (map (\<lambda>c. JStr [c]) s)"
| "py_iter _ = Inl TypeError"

text \<open>\<open>sep.join(x)\<close>: every member of the iterable must be a string.\<close>

fun join_strs :: "string \<Rightarrow> json list \<Rightarrow> error + string" where
  "join_strs sep [] = Inr []"
| "join_strs sep [JStr a] = Inr a"
| "join_strs sep (JStr a # x # xs) = bind_e (join_strs sep (x # xs)) (\<lambda>r. Inr (a @ sep @ r))"
| "join_strs sep (_ # xs) = Inl TypeError"

definition py_join :: "string \<Rightarrow> json \<Rightarrow> error + string" where
  "py_join sep x = bind_e (py_iter x) (join_strs sep)"

subsection \<open>Strings: \<open>strip\<close>, \<open>lower\<close>, \<open>split\<close>\<close>

text \<open>
  The ASCII characters \<open>str.isspace\<close> accepts: tab, line feed, vertical tab, form feed,
  carriage return, the four separators 28 to 31, and the space.
\<close>

definition py_isspace :: "char \<Rightarrow> bool" where
  "py_isspace c = (of_char c \<in> {9::nat, 10, 11, 12, 13, 28, 29, 30, 31, 32})"

definition py_strip :: "string \<Rightarrow> string" where
  "py_strip s = rev (dropWhile py_isspace (rev (dropWhile py_isspace s)))"

definition lower_char :: "char \<Rightarrow> char" where
  "lower_char c = (if 65 \<le> (of_char c :: nat) \<and> (of_char c :: nat) \<le> 90
                   then char_of ((of_char c :: nat) + 32) else c)"

definition py_lower :: "string \<Rightarrow> string" where
  "py_lower s = map lower_char s"

text \<open>\<open>s.split(c)\<close> for a one-character separator: never empty, \<open>[\<close>\<open>''\<close>\<open>]\<close> on the empty string.\<close>

fun py_split :: "char \<Rightarrow> string \<Rightarrow> string list" where
  "py_split c [] = [[]]"
| "py_split c (x # xs) =
     (if x = c then [] # py_split c xs
      else (case py_split c xs of [] \<Rightarrow> [[x]] | y # ys \<Rightarrow> (x # y) # ys))"

subsection \<open>\<open>normalize_for_compare\<close> (lines 92 to 106)\<close>

fun normalize_for_compare :: "json \<Rightarrow> json" where
  "normalize_for_compare (JStr value) =
     (let v = py_lower (py_strip value) in
      if v = ''true'' then JBool True
      else if v = ''false'' then JBool False
      else JStr v)"
| "normalize_for_compare value = value"

subsection \<open>The two calls into \<open>urllib.parse\<close>\<close>

text \<open>
  \<open>urllib.parse\<close> is the Python standard library, not code of the repository. The two
  functions the script calls are modelled after CPython 3.12 on ASCII strings.

  \<open>urlparse(url).query\<close>: leading control characters and spaces are dropped, tabs and
  line breaks are removed, a scheme and a network location are split off, and the query is
  what stands between the first \<open>?\<close> and the first \<open>#\<close> of the rest. The one exception
  kept is the \<open>ValueError\<close> for a network location with an unmatched square bracket. The
  further checks of a bracketed host and of non-ASCII network locations, which only turn
  more URLs into a \<open>ValueError\<close>, are not modelled.
\<close>

definition c0_or_space :: "char \<Rightarrow> bool" where
  "c0_or_space c = ((of_char c :: nat) \<le> 32)"

definition unsafe_url_byte :: "char \<Rightarrow> bool" where
  "unsafe_url_byte c = ((of_char c :: nat) \<in> {9, 10, 13})"

definition ascii_alpha :: "char \<Rightarrow> bool" where
  "ascii_alpha c = ((65 \<le> (of_char c :: nat) \<and> (of_char c :: nat) \<le> 90) \<or>
                    (97 \<le> (of_char c :: nat) \<and> (of_char c :: nat) \<le> 122))"

definition scheme_char :: "char \<Rightarrow> bool" where
  "scheme_char c = (ascii_alpha c \<or> (48 \<le> (of_char c :: nat) \<and> (of_char c :: nat) \<le> 57) \<or>
                    c \<in> {CHR ''+'', CHR ''-'', CHR ''.''})"

definition netloc_char :: "char \<Rightarrow> bool" where
  "netloc_char c = (c \<notin> {CHR ''/'', CHR ''?'', CHR ''#''})"

definition strip_scheme :: "string \<Rightarrow> string" where
  "strip_scheme url =
     (let pre = takeWhile (\<lambda>c. c \<noteq> CHR '':'') url in
      if CHR '':'' \<in> set url \<and> (case pre of [] \<Rightarrow> False | c # _ \<Rightarrow> ascii_alpha c) \<and>
         list_all scheme_char pre
      then drop (Suc (length pre)) url else url)"

definition query_of :: "string \<Rightarrow> string" where
  "query_of url =
     (let u = takeWhile (\<lambda>c. c \<noteq> CHR ''#'') url in
      if CHR ''?'' \<in> set u then drop 1 (dropWhile (\<lambda>c. c \<noteq> CHR ''?'') u) else [])"

definition urlparse_query :: "string \<Rightarrow> error + string" where
  "urlparse_query url0 =
     (let url = strip_scheme (filter (\<lambda>c. \<not> unsafe_url_byte c) (dropWhile c0_or_space url0)) in
      if take 2 url = ''//'' then
        (let netloc = takeWhile netloc_char (drop 2 url);
             rest = dropWhile netloc_char (drop 2 url) in
         if (CHR ''['' \<in> set netloc \<and> CHR '']'' \<notin> set netloc) \<or>
            (CHR '']'' \<in> set netloc \<and> CHR ''['' \<notin> set netloc)
         then Inl ValueError else Inr (query_of rest))
      else Inr (query_of url))"

text \<open>
  \<open>unquote\<close>: every \<open>%\<close> followed by two hexadecimal digits becomes the byte they
  denote; any other \<open>%\<close> stays. (CPython then decodes the bytes as UTF-8 and replaces an
  invalid sequence by U+FFFD; the model keeps the bytes.)
\<close>

definition hex_val :: "char \<Rightarrow> nat option" where
  "hex_val c =
     (let n = (of_char c :: nat) in
      if 48 \<le> n \<and> n \<le> 57 then Some (n - 48)
      else if 65 \<le> n \<and> n \<le> 70 then Some (n - 55)
      else if 97 \<le> n \<and> n \<le> 102 then Some (n - 87)
      else None)"

fun unquote :: "string \<Rightarrow> string" where
  "unquote (c # a # b # rest) =
     (if c = CHR ''%'' then
        (case (hex_val a, hex_val b) of
           (Some h, Some l) \<Rightarrow> char_of (16 * h + l) # unquote rest
         | _ \<Rightarrow> c # unquote (a # b # rest))
      else c # unquote (a # b # rest))"
| "unquote (c # rest) = c # unquote rest"
| "unquote [] = []"

definition plus_to_space :: "string \<Rightarrow> string" where
  "plus_to_space s = map (\<lambda>c. if c = CHR ''+'' then CHR '' '' else c) s"

text \<open>
  \<open>parse_qsl(qs)\<close> with its defaults: the fields are separated by \<open>&\<close>; an empty field, a
  field without \<open>=\<close> and a field with an empty value are dropped; in name and value \<open>+\<close>
  becomes a space and percent escapes are decoded.
\<close>

definition parse_field :: "string \<Rightarrow> (string \<times> string) list" where
  "parse_field name_value =
     (if name_value = [] \<or> CHR ''='' \<notin> set name_value then []
      else
        (let name = takeWhile (\<lambda>c. c \<noteq> CHR ''='') name_value;
             val = drop 1 (dropWhile (\<lambda>c. c \<noteq> CHR ''='') name_value) in
         if val = [] then [] else [(unquote (plus_to_space name), unquote (plus_to_space val))]))"

definition parse_qsl :: "string \<Rightarrow> (string \<times> string) list" where
  "parse_qsl qs = (if qs = [] then [] else concat (map parse_field (py_split (CHR ''&'') qs)))"

text \<open>
  \<open>parse_qs(qs)\<close>: the dictionary from each name to the list of its values, in the order
  of the fields.
\<close>

fun qs_add :: "(string \<times> string list) list \<Rightarrow> string \<times> string \<Rightarrow> (string \<times> string list) list" where
  "qs_add [] (name, val) = [(name, [val])]"
| "qs_add ((n, vs) # res) (name, val) =
     (if n = name then (n, vs @ [val]) # res else (n, vs) # qs_add res (name, val))"

definition parse_qs :: "string \<Rightarrow> (string \<times> string list) list" where
  "parse_qs qs = foldl qs_add [] (parse_qsl qs)"

subsection \<open>\<open>VRM0xMeta.get_license_info\<close> (lines 177 to 203)\<close>

text \<open>
  The unified dictionary \<open>info\<close> is an association list with its sixteen keys in the order
  the method assigns them.
\<close>

type_synonym license_info = "(string \<times> json) list"

definition sentinel :: json where
  "sentinel = JStr ''--''"

text \<open>
  Lines 188 to 193. A value that is not a string and is not empty or zero reaches
  \<open>urlparse\<close>, which raises \<open>AttributeError\<close> on it; \<open>[0]\<close> is the first value of the
  parameter.
\<close>

definition redistribution_of :: "json \<Rightarrow> error + json" where
  "redistribution_of other_permission_url =
     (if truthy other_permission_url then
        (case other_permission_url of
           JStr url \<Rightarrow>
             bind_e (urlparse_query url) (\<lambda>query.
               (case map_of (parse_qs query) ''redistribution'' of
                  None \<Rightarrow> Inr sentinel
                | Some [] \<Rightarrow> Inl IndexError
                | Some (v # _) \<Rightarrow> Inr (JStr v)))
         | _ \<Rightarrow> Inl AttributeError)
      else Inr sentinel)"

fun VRM0xMeta_get_license_info :: "json \<Rightarrow> string \<Rightarrow> error + license_info" where
  "VRM0xMeta_get_license_info (JObj meta) file_name =
     bind_e (redistribution_of (dict_get meta ''otherPermissionUrl'' (JStr []))) (\<lambda>redistribution.
       Inr [(''file_name'', JStr file_name),
            (''vrm_version'', JStr ''0.x''),
            (''model_name'', dict_get meta ''title'' sentinel),
            (''author'', dict_get meta ''author'' sentinel),
            (''contact'', dict_get meta ''contactInformation'' sentinel),
            (''reference_url'', dict_get meta ''reference'' sentinel),
            (''commercial_usage'', dict_get meta ''commercialUssageName'' sentinel),
            (''redistribution'', redistribution),
            (''credit_notation'', dict_get meta ''creditNotation'' sentinel),
            (''modification'', dict_get meta ''modification'' sentinel),
            (''avatar_permission'', dict_get meta ''allowedUserName'' sentinel),
            (''sexual_expression'', dict_get meta ''sexualUssageName'' sentinel),
            (''violence_expression'', dict_get meta ''violentUssageName'' sentinel),
            (''license'', dict_get meta ''licenseName'' sentinel),
            (''other_permission_url'', dict_get meta ''otherPermissionUrl'' sentinel),
            (''other_license_url'', dict_get meta ''otherLicenseUrl'' sentinel)])"
| "VRM0xMeta_get_license_info _ file_name = Inl AttributeError"

subsection \<open>\<open>VRM1Meta.get_license_info\<close> (lines 212 to 244)\<close>

text \<open>
  The three boolean fields (lines 223 to 227, 231 to 240): \<open>None\<close>, which is also what
  \<open>get\<close> returns for a missing key, gives the sentinel; otherwise the truth value decides.
\<close>

definition tri_state :: "json \<Rightarrow> json" where
  "tri_state v = (if v = JNull then sentinel
                  else if truthy v then JStr ''Allowed'' else JStr ''Not allowed'')"

fun VRM1Meta_get_license_info :: "json \<Rightarrow> string \<Rightarrow> error + license_info" where
  "VRM1Meta_get_license_info (JObj meta) file_name =
     bind_e (py_join '', '' (dict_get meta ''authors'' (JArr [sentinel]))) (\<lambda>author.
       Inr [(''file_name'', JStr file_name),
            (''vrm_version'', JStr ''1.0''),
            (''model_name'', dict_get meta ''name'' sentinel),
            (''author'', JStr author),
            (''contact'', sentinel),
            (''reference_url'', sentinel),
            (''commercial_usage'', dict_get meta ''commercialUsage'' sentinel),
            (''redistribution'', tri_state (dict_get meta ''allowRedistribution'' JNull)),
            (''credit_notation'', dict_get meta ''creditNotation'' sentinel),
            (''modification'', dict_get meta ''modification'' sentinel),
            (''avatar_permission'', dict_get meta ''avatarPermission'' sentinel),
            (''sexual_expression'', tri_state (dict_get meta ''allowExcessivelySexualUsage'' JNull)),
            (''violence_expression'', tri_state (dict_get meta ''allowExcessivelyViolentUsage'' JNull)),
            (''license'', dict_get meta ''licenseUrl'' sentinel),
            (''other_permission_url'', sentinel),
            (''other_license_url'', sentinel)])"
| "VRM1Meta_get_license_info _ file_name = Inl AttributeError"

subsection \<open>\<open>VRMFile\<close> and \<open>VRMParser.parse\<close> (lines 128 to 165, 247 to 255)\<close>

text \<open>
  A \<open>VRMFile\<close> after \<open>load\<close>: its path, the parsed JSON chunk (\<open>None\<close> when reading,
  the header check, decoding or parsing raised) and the detected version. Reading the bytes
  is not modelled; \<open>load_json\<close> is what \<open>load\<close> does once the chunk is parsed (lines 154
  to 168): every exception of the version test is caught and leaves the version \<open>None\<close>.
\<close>

record VRMFile =
  path :: string
  json_data :: "json option"
  vrm_version :: "string option"

definition detect_version :: "json \<Rightarrow> error + string" where
  "detect_version j =
     bind_e (py_in ''extensions'' j) (\<lambda>has_ext.
       if has_ext then
         bind_e (py_getitem j ''extensions'') (\<lambda>ext.
           bind_e (py_in ''VRM'' ext) (\<lambda>legacy.
             if legacy then Inr ''0.x''
             else bind_e (py_in ''VRMC_vrm'' ext) (\<lambda>current.
               if current then Inr ''1.0'' else Inl ValueError)))
       else Inl ValueError)"

definition load_json :: "string \<Rightarrow> json option \<Rightarrow> VRMFile" where
  "load_json p parsed =
     \<lparr>path = p, json_data = parsed,
      vrm_version = (case parsed of None \<Rightarrow> None
                     | Some j \<Rightarrow> (case detect_version j of Inl e \<Rightarrow> None | Inr v \<Rightarrow> Some v))\<rparr>"

text \<open>\<open>os.path.basename\<close>, POSIX flavour: what follows the last slash.\<close>

definition basename :: "string \<Rightarrow> string" where
  "basename p = rev (takeWhile (\<lambda>c. c \<noteq> CHR ''/'') (rev p))"

text \<open>The constructors of the two parsers (lines 174 and 209): three subscriptions.\<close>

definition meta_of :: "json option \<Rightarrow> string \<Rightarrow> error + json" where
  "meta_of jd marker =
     (case jd of
        None \<Rightarrow> Inl TypeError
      | Some j \<Rightarrow>
          bind_e (py_getitem j ''extensions'') (\<lambda>ext.
            bind_e (py_getitem ext marker) (\<lambda>vrm. py_getitem vrm ''meta'')))"

definition VRMParser_parse :: "VRMFile \<Rightarrow> error + license_info option" where
  "VRMParser_parse vrm_file =
     (if vrm_version vrm_file = Some ''0.x'' then
        bind_e (meta_of (json_data vrm_file) ''VRM'') (\<lambda>meta.
          bind_e (VRM0xMeta_get_license_info meta (basename (path vrm_file))) (\<lambda>info. Inr (Some info)))
      else if vrm_version vrm_file = Some ''1.0'' then
        bind_e (meta_of (json_data vrm_file) ''VRMC_vrm'') (\<lambda>meta.
          bind_e (VRM1Meta_get_license_info meta (basename (path vrm_file))) (\<lambda>info. Inr (Some info)))
      else Inr None)"

subsection \<open>\<open>sort_files_by_mapdata\<close> (lines 318 to 393)\<close>

text \<open>
  Lines 321 to 331: the entries of \<open>mapdata.sorted\<close> are separated into the \<open>DoNotUse\<close>
  mapping and the normal mappings. \<open>is_donotuse\<close> is the test of line 328 on the two values
  read from an entry.
\<close>

definition is_donotuse :: "json \<Rightarrow> json \<Rightarrow> bool" where
  "is_donotuse directory target_dict = (py_eq directory (JStr ''DoNotUse'') \<and> \<not> truthy target_dict)"

fun separate :: "json list \<Rightarrow> json option \<Rightarrow> json list \<Rightarrow> error + (json option \<times> json list)" where
  "separate [] donotuse_mapping normal_mappings = Inr (donotuse_mapping, normal_mappings)"
| "separate (mapping # rest) donotuse_mapping normal_mappings =
     bind_e (py_get mapping ''target'' (JObj [])) (\<lambda>target_dict.
       bind_e (py_get mapping ''directory'' JNull) (\<lambda>directory.
         if is_donotuse directory target_dict
         then separate rest (Some mapping) normal_mappings
         else separate rest donotuse_mapping (normal_mappings @ [mapping])))"

definition load_mappings :: "json \<Rightarrow> error + (json option \<times> json list)" where
  "load_mappings mapdata =
     bind_e (py_get mapdata ''mapdata'' (JObj [])) (\<lambda>section.
       bind_e (py_get section ''sorted'' (JArr [])) (\<lambda>sorted_mappings.
         bind_e (py_iter sorted_mappings) (\<lambda>entries. separate entries None [])))"

text \<open>
  Lines 355 to 368, the test of one condition on a key the metadata has: a \<open>None\<close> file
  value fails; a list of expected values is searched for the normalised file value, each
  member normalised; any other expected value is compared after normalising both sides.
\<close>

definition condition_matches :: "json \<Rightarrow> json \<Rightarrow> bool" where
  "condition_matches file_value mapping_value =
     (if file_value = JNull then False
      else
        (let norm_file_val = normalize_for_compare file_value in
         case mapping_value of
           JArr xs \<Rightarrow> py_in_list norm_file_val (map normalize_for_compare xs)
         | _ \<Rightarrow> py_eq norm_file_val (normalize_for_compare mapping_value)))"

text \<open>
  Lines 351 to 368, the loop over the conditions of one mapping: it returns
  \<open>(evaluated_keys, all_match)\<close> and leaves at the first condition that fails.
\<close>

fun eval_conditions :: "json \<Rightarrow> (string \<times> json) list \<Rightarrow> nat \<Rightarrow> error + (nat \<times> bool)" where
  "eval_conditions meta [] evaluated_keys = Inr (evaluated_keys, True)"
| "eval_conditions meta ((key, mapping_value) # rest) evaluated_keys =
     bind_e (py_in key meta) (\<lambda>present.
       if present then
         bind_e (py_getitem meta key) (\<lambda>file_value.
           if condition_matches file_value mapping_value
           then eval_conditions meta rest (Suc evaluated_keys)
           else Inr (Suc evaluated_keys, False))
       else eval_conditions meta rest evaluated_keys)"

text \<open>
  Lines 346 to 372 for one mapping: the value of \<open>all_match\<close> at line 372. A mapping with
  an empty target is passed over (line 347), and so is one none of whose keys the metadata
  has (line 370).
\<close>

definition all_match :: "json \<Rightarrow> json \<Rightarrow> error + bool" where
  "all_match meta mapping =
     bind_e (py_get mapping ''target'' (JObj [])) (\<lambda>target_dict.
       if \<not> truthy target_dict then Inr False
       else
         bind_e (py_items target_dict) (\<lambda>items.
           bind_e (eval_conditions meta items 0) (\<lambda>(evaluated_keys, matched).
             Inr (if evaluated_keys = 0 then False else matched))))"

text \<open>
  Lines 373 to 382 and 385 to 392: the directory a mapping sends the file to. A missing or
  empty directory moves nothing; a directory that is not a string makes \<open>os.path\<close> raise
  \<open>TypeError\<close> before anything is moved.
\<close>

definition target_dir_of :: "json \<Rightarrow> error + string option" where
  "target_dir_of mapping =
     bind_e (py_get mapping ''directory'' JNull) (\<lambda>target_dir.
       if truthy target_dir then
         (case target_dir of JStr d \<Rightarrow> Inr (Some d) | _ \<Rightarrow> Inl TypeError)
       else Inr None)"

text \<open>
  Lines 345 to 382: the loop over the normal mappings. The result is the directory the file
  was moved to, or \<open>None\<close> when the loop ends with \<open>moved\<close> still false. A mapping that
  matches but names no directory does not end the loop.
\<close>

fun first_match :: "json \<Rightarrow> json list \<Rightarrow> error + string option" where
  "first_match meta [] = Inr None"
| "first_match meta (mapping # rest) =
     bind_e (all_match meta mapping) (\<lambda>matched.
       if matched then
         bind_e (target_dir_of mapping) (\<lambda>target_dir.
           case target_dir of Some d \<Rightarrow> Inr (Some d) | None \<Rightarrow> first_match meta rest)
       else first_match meta rest)"

text \<open>
  Lines 343 to 392 for one file's metadata: the normal mappings first, then the
  \<open>DoNotUse\<close> mapping when nothing matched. The result is the destination, if any.
\<close>

definition classify :: "json \<Rightarrow> json list \<Rightarrow> json option \<Rightarrow> error + string option" where
  "classify meta normal_mappings donotuse_mapping =
     bind_e (first_match meta normal_mappings) (\<lambda>moved.
       case moved of
         Some d \<Rightarrow> Inr (Some d)
       | None \<Rightarrow>
           (case donotuse_mapping of
              None \<Rightarrow> Inr None
            | Some m \<Rightarrow> if truthy m then target_dir_of m else Inr None))"

text \<open>
  Lines 334 to 341: a file without a JSON chunk or a version is skipped; otherwise its
  \<open>meta\<close> object is read with three \<open>get\<close> calls.
\<close>

definition file_meta :: "VRMFile \<Rightarrow> error + json option" where
  "file_meta vrm =
     (case json_data vrm of
        None \<Rightarrow> Inr None
      | Some j \<Rightarrow>
          if truthy j \<and> (vrm_version vrm = Some ''0.x'' \<or> vrm_version vrm = Some ''1.0'') then
            bind_e (py_get j ''extensions'' (JObj [])) (\<lambda>ext.
              bind_e (py_get ext (if vrm_version vrm = Some ''0.x'' then ''VRM'' else ''VRMC_vrm'') (JObj []))
                (\<lambda>v. bind_e (py_get v ''meta'' (JObj [])) (\<lambda>meta. Inr (Some meta))))
          else Inr None)"

text \<open>
  The pass over the files (lines 333 to 392). A move is the pair of the file's path and
  the directory it went to. An exception ends the pass; the moves made before it stay.
\<close>

type_synonym move = "string \<times> string"

fun sort_loop :: "json list \<Rightarrow> json option \<Rightarrow> VRMFile list \<Rightarrow> move list \<Rightarrow> move list \<times> error option" where
  "sort_loop normal_mappings donotuse_mapping [] moves = (moves, None)"
| "sort_loop normal_mappings donotuse_mapping (vrm # rest) moves =
     (case file_meta vrm of
        Inl e \<Rightarrow> (moves, Some e)
      | Inr None \<Rightarrow> sort_loop normal_mappings donotuse_mapping rest moves
      | Inr (Some meta) \<Rightarrow>
          (case classify meta normal_mappings donotuse_mapping of
             Inl e \<Rightarrow> (moves, Some e)
           | Inr None \<Rightarrow> sort_loop normal_mappings donotuse_mapping rest moves
           | Inr (Some d) \<Rightarrow> sort_loop normal_mappings donotuse_mapping rest (moves @ [(path vrm, d)])))"

text \<open>
  The whole function, on the loaded files and the parsed content of the mapdata file:
  the moves made, and the exception that ended the pass if one did.
\<close>

definition sort_files_by_mapdata :: "VRMFile list \<Rightarrow> json \<Rightarrow> move list \<times> error option" where
  "sort_files_by_mapdata file_list mapdata =
     (case load_mappings mapdata of
        Inl e \<Rightarrow> ([], Some e)
      | Inr (donotuse_mapping, normal_mappings) \<Rightarrow>
          sort_loop normal_mappings donotuse_mapping file_list [])"

subsection \<open>Notions the properties are stated with\<close>


text \<open>
  The three boolean source keys of a VRM 1.0 \<open>meta\<close> object, each with the key of the
  unified dictionary it fills (lines 223, 231 and 236).
\<close>

definition tri_state_fields :: "(string \<times> string) list" where
  "tri_state_fields =
     [(''allowRedistribution'', ''redistribution''),
      (''allowExcessivelySexualUsage'', ''sexual_expression''),
      (''allowExcessivelyViolentUsage'', ''violence_expression'')]"


text \<open>
  An entry of the rule list qualifies as the fallback when it carries the reserved label
  \<open>DoNotUse\<close> and has no conditions.
\<close>

definition qualifies :: "json \<Rightarrow> bool" where
  "qualifies entry =
     (case entry of
        JObj kvs \<Rightarrow> is_donotuse (dict_get kvs ''directory'' JNull) (dict_get kvs ''target'' (JObj []))
      | _ \<Rightarrow> False)"

text \<open>
  The separation of the rule list as the specification words it: the first qualifying
  entry is the fallback, and all the other entries, in stored order, are conditional rules.
\<close>

definition spec_fallback :: "json list \<Rightarrow> json option" where
  "spec_fallback entries = List.find qualifies entries"

fun spec_conditional :: "json list \<Rightarrow> json list" where
  "spec_conditional [] = []"
| "spec_conditional (entry # rest) = (if qualifies entry then rest else entry # spec_conditional rest)"

text \<open>
  Shorthands for the inputs of the examples: an entry of \<open>mapdata.sorted\<close> as
  \<open>prepare_mapdata\<close> lays it out, and a loaded VRM 0.x file with a given \<open>meta\<close> object.
\<close>

definition mapping_entry :: "string \<Rightarrow> (string \<times> json) list \<Rightarrow> json" where
  "mapping_entry directory target = JObj [(''directory'', JStr directory), (''target'', JObj target)]"

definition legacy_file :: "string \<Rightarrow> (string \<times> json) list \<Rightarrow> VRMFile" where
  "legacy_file p meta =
     load_json p (Some (JObj [(''extensions'', JObj [(''VRM'', JObj [(''meta'', JObj meta)])])]))"

section \<open>Properties\<close>

subsection \<open>Normalisation\<close>










subsection \<open>The VRM 1.0 adapter\<close>

lemma vrm1_fields:
  assumes "VRM1Meta_get_license_info (JObj meta) file_name = Inr info"
  shows "map_of info ''contact'' = Some sentinel"
    and "map_of info ''reference_url'' = Some sentinel"
    and "map_of info ''other_permission_url'' = Some sentinel"
    and "map_of info ''other_license_url'' = Some sentinel"
    and "map_of info ''redistribution'' = Some (tri_state (dict_get meta ''allowRedistribution'' JNull))"
    and "map_of info ''sexual_expression'' =
           Some (tri_state (dict_get meta ''allowExcessivelySexualUsage'' JNull))"
    and "map_of info ''violence_expression'' =
           Some (tri_state (dict_get meta ''allowExcessivelyViolentUsage'' JNull))"
proof -
  from assms obtain author where i: "info = [(''file_name'', JStr file_name),
            (''vrm_version'', JStr ''1.0''),
            (''model_name'', dict_get meta ''name'' sentinel),
            (''author'', JStr author),
            (''contact'', sentinel),
            (''reference_url'', sentinel),
            (''commercial_usage'', dict_get meta ''commercialUsage'' sentinel),
            (''redistribution'', tri_state (dict_get meta ''allowRedistribution'' JNull)),
            (''credit_notation'', dict_get meta ''creditNotation'' sentinel),
            (''modification'', dict_get meta ''modification'' sentinel),
            (''avatar_permission'', dict_get meta ''avatarPermission'' sentinel),
            (''sexual_expression'', tri_state (dict_get meta ''allowExcessivelySexualUsage'' JNull)),
            (''violence_expression'', tri_state (dict_get meta ''allowExcessivelyViolentUsage'' JNull)),
            (''license'', dict_get meta ''licenseUrl'' sentinel),
            (''other_permission_url'', sentinel),
            (''other_license_url'', sentinel)]"
    by (cases "py_join '', '' (dict_get meta ''authors'' (JArr [sentinel]))") auto
  show "map_of info ''contact'' = Some sentinel"
    and "map_of info ''reference_url'' = Some sentinel"
    and "map_of info ''other_permission_url'' = Some sentinel"
    and "map_of info ''other_license_url'' = Some sentinel"
    and "map_of info ''redistribution'' = Some (tri_state (dict_get meta ''allowRedistribution'' JNull))"
    and "map_of info ''sexual_expression'' =
           Some (tri_state (dict_get meta ''allowExcessivelySexualUsage'' JNull))"
    and "map_of info ''violence_expression'' =
           Some (tri_state (dict_get meta ''allowExcessivelyViolentUsage'' JNull))"
    unfolding i by simp_all
qed

text \<open>The VRM 1.0 adapter returns exactly when the authors can be joined.\<close>

lemma vrm1_adapter_returns:
  "(\<exists>info. VRM1Meta_get_license_info (JObj meta) file_name = Inr info) =
     (\<exists>author. py_join '', '' (dict_get meta ''authors'' (JArr [JStr ''--''])) = Inr author)"
  by (cases "py_join '', '' (dict_get meta ''authors'' (JArr [JStr ''--'']))") (simp_all add: sentinel_def)

lemma tri_state_of_get:
  "(map_of meta key = None \<longrightarrow> tri_state (dict_get meta key JNull) = JStr ''--'') \<and>
   (map_of meta key = Some (JBool True) \<longrightarrow> tri_state (dict_get meta key JNull) = JStr ''Allowed'') \<and>
   (map_of meta key = Some (JBool False) \<longrightarrow>
      tri_state (dict_get meta key JNull) = JStr ''Not allowed'')"
  by (simp add: dict_get_def tri_state_def sentinel_def)

text \<open>
  C2. Whenever the VRM 1.0 adapter returns a dictionary, each of the three boolean source
  fields is mapped as follows: key absent gives \<open>"--"\<close>, \<open>true\<close> gives \<open>"Allowed"\<close>,
  \<open>false\<close> gives \<open>"Not allowed"\<close>; and the three outputs are pairwise distinct.
\<close>

theorem vrm1_tri_state:
  assumes "VRM1Meta_get_license_info (JObj meta) file_name = Inr info"
  shows "(\<forall>(key, field) \<in> set tri_state_fields.
            (map_of meta key = None \<longrightarrow> map_of info field = Some (JStr ''--'')) \<and>
            (map_of meta key = Some (JBool True) \<longrightarrow> map_of info field = Some (JStr ''Allowed'')) \<and>
            (map_of meta key = Some (JBool False) \<longrightarrow> map_of info field = Some (JStr ''Not allowed''))) \<and>
         distinct [JStr ''--'', JStr ''Allowed'', JStr ''Not allowed'']"
proof -
  note f = vrm1_fields(5-7) [OF assms]
  have "\<And>key field. map_of info field = Some (tri_state (dict_get meta key JNull)) \<Longrightarrow>
          (map_of meta key = None \<longrightarrow> map_of info field = Some (JStr ''--'')) \<and>
          (map_of meta key = Some (JBool True) \<longrightarrow> map_of info field = Some (JStr ''Allowed'')) \<and>
          (map_of meta key = Some (JBool False) \<longrightarrow> map_of info field = Some (JStr ''Not allowed''))"
    using tri_state_of_get by simp
  from this [OF f(1)] this [OF f(2)] this [OF f(3)] show ?thesis
    by (simp add: tri_state_fields_def)
qed

text \<open>
  At a \<open>meta\<close> object with the first field true, the second false and the third absent,
  the three outputs appear side by side.
\<close>

theorem vrm1_tri_state_witness:
  "\<exists>info. VRM1Meta_get_license_info
      (JObj [(''allowRedistribution'', JBool True), (''allowExcessivelySexualUsage'', JBool False)])
      ''a.vrm'' = Inr info \<and>
     map_of info ''redistribution'' = Some (JStr ''Allowed'') \<and>
     map_of info ''sexual_expression'' = Some (JStr ''Not allowed'') \<and>
     map_of info ''violence_expression'' = Some (JStr ''--'')"
proof -
  obtain info where e: "VRM1Meta_get_license_info
      (JObj [(''allowRedistribution'', JBool True), (''allowExcessivelySexualUsage'', JBool False)])
      ''a.vrm'' = Inr info"
    by (simp add: dict_get_def py_join_def sentinel_def)
  from vrm1_tri_state [OF e] e show ?thesis
    by (simp add: tri_state_fields_def)
qed

text \<open>
  C10. Whenever the VRM 1.0 adapter returns a dictionary, its contact, reference URL, other
  permission URL and other licence URL fields are \<open>"--"\<close>, whatever the \<open>meta\<close> object
  holds.
\<close>

theorem vrm1_fixed_fields:
  assumes "VRM1Meta_get_license_info (JObj meta) file_name = Inr info"
  shows "map_of info ''contact'' = Some (JStr ''--'') \<and>
         map_of info ''reference_url'' = Some (JStr ''--'') \<and>
         map_of info ''other_permission_url'' = Some (JStr ''--'') \<and>
         map_of info ''other_license_url'' = Some (JStr ''--'')"
  using vrm1_fields(1-4) [OF assms] by (simp add: sentinel_def)

text \<open>A \<open>meta\<close> object that carries the four legacy keys still gives four sentinels.\<close>

theorem vrm1_fixed_fields_witness:
  "\<exists>info. VRM1Meta_get_license_info
      (JObj [(''contactInformation'', JStr ''me''), (''reference'', JStr ''http://a''),
             (''otherPermissionUrl'', JStr ''http://b''), (''otherLicenseUrl'', JStr ''http://c'')])
      ''a.vrm'' = Inr info \<and>
     map_of info ''contact'' = Some (JStr ''--'') \<and>
     map_of info ''reference_url'' = Some (JStr ''--'') \<and>
     map_of info ''other_permission_url'' = Some (JStr ''--'') \<and>
     map_of info ''other_license_url'' = Some (JStr ''--'')"
proof -
  obtain info where e: "VRM1Meta_get_license_info
      (JObj [(''contactInformation'', JStr ''me''), (''reference'', JStr ''http://a''),
             (''otherPermissionUrl'', JStr ''http://b''), (''otherLicenseUrl'', JStr ''http://c'')])
      ''a.vrm'' = Inr info"
    by (simp add: dict_get_def py_join_def sentinel_def)
  from vrm1_fixed_fields [OF e] e show ?thesis by blast
qed

subsection \<open>The VRM 0.x adapter\<close>

lemma map_of_qs_add:
  "map_of (qs_add res (n, v)) k =
     (if k = n then Some ((case map_of res n of None \<Rightarrow> [] | Some vs \<Rightarrow> vs) @ [v])
      else map_of res k)"
  by (induction res) auto

lemma map_of_foldl_qs_add:
  "map_of (foldl qs_add res ps) k =
     (case filter (\<lambda>nv. fst nv = k) ps of
        [] \<Rightarrow> map_of res k
      | nv # nvs \<Rightarrow>
          Some ((case map_of res k of None \<Rightarrow> [] | Some vs \<Rightarrow> vs) @ map snd (nv # nvs)))"
proof (induction ps arbitrary: res)
  case Nil
  then show ?case by simp
next
  case (Cons p ps)
  obtain n v where p: "p = (n, v)" by (cases p)
  show ?case
    by (simp add: p Cons.IH map_of_qs_add split: list.splits option.splits)
qed

text \<open>
  The dictionary \<open>parse_qs\<close> builds, read with \<open>get(name, ["--"])[0]\<close>, gives the value
  of the first field with the name; the list under a name is never empty, so \<open>[0]\<close> does
  not raise.
\<close>

lemma parse_qs_first:
  "(case map_of (parse_qs query) name of
      None \<Rightarrow> Inr sentinel
    | Some [] \<Rightarrow> Inl IndexError
    | Some (v # _) \<Rightarrow> Inr (JStr v)) =
   Inr (case filter (\<lambda>nv. fst nv = name) (parse_qsl query) of
          [] \<Rightarrow> sentinel
        | nv # _ \<Rightarrow> JStr (snd nv))"
  by (simp add: parse_qs_def map_of_foldl_qs_add split: list.splits)


text \<open>
  The VRM 0.x adapter returns exactly when \<open>otherPermissionUrl\<close> is absent, is empty,
  zero, false or \<open>null\<close>, or is a string that \<open>urlparse\<close> accepts.
\<close>

lemma redistribution_of_returns:
  "(\<exists>r. redistribution_of v = Inr r) =
     (\<not> truthy v \<or> (\<exists>url query. v = JStr url \<and> urlparse_query url = Inr query))"
proof (cases "truthy v")
  case False
  then show ?thesis by (simp add: redistribution_of_def)
next
  case True
  show ?thesis
  proof (cases v)
    case (JStr url)
    show ?thesis
    proof (cases "urlparse_query url")
      case (Inl e)
      with True JStr show ?thesis by (simp add: redistribution_of_def)
    next
      case (Inr query)
      with True JStr show ?thesis by (simp add: redistribution_of_def parse_qs_first)
    qed
  qed (use True in \<open>simp_all add: redistribution_of_def\<close>)
qed

lemma legacy_adapter_returns:
  "(\<exists>info. VRM0xMeta_get_license_info (JObj meta) file_name = Inr info) =
     (case map_of meta ''otherPermissionUrl'' of
        None \<Rightarrow> True
      | Some v \<Rightarrow> \<not> truthy v \<or> (\<exists>url query. v = JStr url \<and> urlparse_query url = Inr query))"
proof -
  have "(\<exists>info. VRM0xMeta_get_license_info (JObj meta) file_name = Inr info) =
        (\<exists>r. redistribution_of (dict_get meta ''otherPermissionUrl'' (JStr [])) = Inr r)"
    by (cases "redistribution_of (dict_get meta ''otherPermissionUrl'' (JStr []))") simp_all
  then show ?thesis
    unfolding redistribution_of_returns by (simp add: dict_get_def split: option.splits)
qed




text \<open>
  C3 says that no field of the unified dictionary is ever \<open>null\<close>. The code does not
  keep this: \<open>get\<close> falls back to the sentinel only for a missing key, and a key that is
  present with the value \<open>null\<close> is passed through. The \<open>meta\<close> object
  \<open>{"title": null}\<close> of a VRM 0.x file gives a dictionary whose \<open>model_name\<close> is
  \<open>None\<close>.
\<close>

theorem legacy_null_title_kept:
  "\<exists>info. VRM0xMeta_get_license_info (JObj [(''title'', JNull)]) ''a.vrm'' = Inr info \<and>
     map_of info ''model_name'' = Some JNull"
  by (simp add: dict_get_def redistribution_of_def)

subsection \<open>Evaluation of one mapping\<close>








subsection \<open>The first mapping that matches\<close>

lemma eval_conditions_absent:
  "\<forall>key \<in> set (map fst conds). py_in key meta = Inr False \<Longrightarrow>
   eval_conditions meta conds n = Inr (n, True)"
  by (induction conds arbitrary: n) auto

lemma all_match_absent:
  assumes "py_get mapping ''target'' (JObj []) = Inr (JObj conds)"
    and "\<forall>key \<in> set (map fst conds). py_in key meta = Inr False"
  shows "all_match meta mapping = Inr False"
  using assms by (simp add: all_match_def eval_conditions_absent)

text \<open>A mapping that does not move the file hands the file on to the mappings after it.\<close>

lemma first_match_skip_all:
  assumes "\<forall>m \<in> set pre. all_match meta m = Inr False \<or>
             (all_match meta m = Inr True \<and> target_dir_of m = Inr None)"
  shows "first_match meta (pre @ rest) = first_match meta rest"
  using assms by (induction pre) auto

lemma first_match_drop:
  assumes "all_match meta m = Inr False"
  shows "first_match meta (pre @ m # post) = first_match meta (pre @ post)"
proof (induction pre)
  case Nil
  from assms show ?case by simp
next
  case (Cons p pre)
  show ?case
  proof (cases "all_match meta p")
    case (Inl e)
    then show ?thesis by simp
  next
    case (Inr b)
    show ?thesis
    proof (cases "target_dir_of p")
      case (Inl e)
      with Inr Cons.IH show ?thesis by simp
    next
      case r: (Inr d)
      with Inr Cons.IH show ?thesis by (simp split: option.splits)
    qed
  qed
qed

text \<open>
  C1, as the code has it. The file goes to the directory of the first mapping, in stored
  order, that matches and names a directory: when every mapping before \<open>A\<close> either does
  not match or matches without naming a directory, and \<open>A\<close> matches and names \<open>d\<close>, the
  result is \<open>d\<close>, whatever follows \<open>A\<close> in the list and whatever the fallback is.
\<close>

theorem first_match_wins:
  assumes "\<forall>m \<in> set pre. all_match meta m = Inr False \<or>
             (all_match meta m = Inr True \<and> target_dir_of m = Inr None)"
    and "all_match meta A = Inr True"
    and "target_dir_of A = Inr (Some d)"
  shows "classify meta (pre @ A # post) fallback = Inr (Some d)"
  using assms(2,3) by (simp add: classify_def first_match_skip_all [OF assms(1)])

text \<open>
  A file with \<open>k = v\<close> and \<open>j = w\<close>: the first mapping asks for another \<open>k\<close>, the second
  asks for \<open>k = v\<close> only, the third for \<open>k = v\<close> and \<open>j = w\<close>, and the fourth has
  the number 5 for its conditions, on which the loop would raise. The second one wins, and
  the two after it are not looked at.
\<close>

theorem first_match_wins_witness:
  "all_match (JObj [(''k'', JStr ''v''), (''j'', JStr ''w'')]) (mapping_entry ''p'' [(''k'', JStr ''u'')])
     = Inr False \<and>
   all_match (JObj [(''k'', JStr ''v''), (''j'', JStr ''w'')]) (mapping_entry ''a'' [(''k'', JStr ''v'')])
     = Inr True \<and>
   all_match (JObj [(''k'', JStr ''v''), (''j'', JStr ''w'')])
     (mapping_entry ''b'' [(''k'', JStr ''v''), (''j'', JStr ''w'')]) = Inr True \<and>
   classify (JObj [(''k'', JStr ''v''), (''j'', JStr ''w'')])
     [mapping_entry ''p'' [(''k'', JStr ''u'')],
      mapping_entry ''a'' [(''k'', JStr ''v'')],
      mapping_entry ''b'' [(''k'', JStr ''v''), (''j'', JStr ''w'')],
      JObj [(''directory'', JStr ''c''), (''target'', JInt 5)]] None = Inr (Some ''a'')"
proof -
  let ?meta = "JObj [(''k'', JStr ''v''), (''j'', JStr ''w'')]"
  have p: "all_match ?meta (mapping_entry ''p'' [(''k'', JStr ''u'')]) = Inr False"
    by code_simp
  have a: "all_match ?meta (mapping_entry ''a'' [(''k'', JStr ''v'')]) = Inr True"
    by code_simp
  have b: "all_match ?meta (mapping_entry ''b'' [(''k'', JStr ''v''), (''j'', JStr ''w'')]) = Inr True"
    by code_simp
  have d: "target_dir_of (mapping_entry ''a'' [(''k'', JStr ''v'')]) = Inr (Some ''a'')"
    by (simp add: target_dir_of_def mapping_entry_def dict_get_def)
  from p have pre: "\<forall>m \<in> set [mapping_entry ''p'' [(''k'', JStr ''u'')]].
      all_match ?meta m = Inr False \<or> (all_match ?meta m = Inr True \<and> target_dir_of m = Inr None)"
    by simp
  from first_match_wins [OF pre a d,
      of "[mapping_entry ''b'' [(''k'', JStr ''v''), (''j'', JStr ''w'')],
           JObj [(''directory'', JStr ''c''), (''target'', JInt 5)]]" None]
  have "classify ?meta
     [mapping_entry ''p'' [(''k'', JStr ''u'')],
      mapping_entry ''a'' [(''k'', JStr ''v'')],
      mapping_entry ''b'' [(''k'', JStr ''v''), (''j'', JStr ''w'')],
      JObj [(''directory'', JStr ''c''), (''target'', JInt 5)]] None = Inr (Some ''a'')"
    by simp
  with p a b show ?thesis by simp
qed

text \<open>
  C1 as stated fails where the first mapping that matches has an empty directory: mapping
  \<open>A\<close> with the conditions \<open>k = v\<close> and the directory \<open>""\<close> comes before mapping \<open>B\<close> with
  the conditions \<open>k = v\<close>, \<open>j = w\<close> and the directory \<open>b\<close>; both match, and the file goes
  to \<open>b\<close>.
\<close>

theorem first_match_counterexample:
  "all_match (JObj [(''k'', JStr ''v''), (''j'', JStr ''w'')]) (mapping_entry [] [(''k'', JStr ''v'')])
     = Inr True \<and>
   all_match (JObj [(''k'', JStr ''v''), (''j'', JStr ''w'')])
     (mapping_entry ''b'' [(''k'', JStr ''v''), (''j'', JStr ''w'')]) = Inr True \<and>
   py_get (mapping_entry [] [(''k'', JStr ''v'')]) ''directory'' JNull = Inr (JStr []) \<and>
   classify (JObj [(''k'', JStr ''v''), (''j'', JStr ''w'')])
     [mapping_entry [] [(''k'', JStr ''v'')],
      mapping_entry ''b'' [(''k'', JStr ''v''), (''j'', JStr ''w'')]] None = Inr (Some ''b'')"
  by code_simp

text \<open>
  C4. A mapping whose conditions are a dictionary none of whose keys the file's metadata
  has, and so also a mapping with no condition at all, does not match, and the
  classification of the file is the same as with the mapping taken out of the list.
\<close>

theorem absent_keys_never_selected:
  assumes "py_get mapping ''target'' (JObj []) = Inr (JObj conds)"
    and "\<forall>key \<in> set (map fst conds). py_in key meta = Inr False"
  shows "all_match meta mapping = Inr False \<and>
         (\<forall>pre post fallback.
            classify meta (pre @ mapping # post) fallback = classify meta (pre @ post) fallback)"
proof -
  have "all_match meta mapping = Inr False"
    using assms by (rule all_match_absent)
  then show ?thesis
    by (simp add: classify_def first_match_drop)
qed

text \<open>
  A file that has only the key \<open>j\<close>: the mapping on \<open>k\<close> and the mapping without
  conditions are both passed over, and the file goes to the fallback.
\<close>

theorem absent_keys_never_selected_witness:
  "all_match (JObj [(''j'', JStr ''v'')]) (mapping_entry ''d'' [(''k'', JStr ''v'')]) = Inr False \<and>
   all_match (JObj [(''j'', JStr ''v'')]) (mapping_entry ''e'' []) = Inr False \<and>
   classify (JObj [(''j'', JStr ''v'')])
     [mapping_entry ''d'' [(''k'', JStr ''v'')], mapping_entry ''e'' []]
     (Some (mapping_entry ''DoNotUse'' [])) = Inr (Some ''DoNotUse'')"
proof -
  let ?meta = "JObj [(''j'', JStr ''v'')]"
  let ?fb = "Some (mapping_entry ''DoNotUse'' [])"
  have t1: "py_get (mapping_entry ''d'' [(''k'', JStr ''v'')]) ''target'' (JObj [])
              = Inr (JObj [(''k'', JStr ''v'')])"
    and t2: "py_get (mapping_entry ''e'' []) ''target'' (JObj []) = Inr (JObj [])"
    by (simp_all add: mapping_entry_def dict_get_def)
  have k1: "\<forall>key \<in> set (map fst [(''k'', JStr ''v'')]). py_in key ?meta = Inr False"
    and k2: "\<forall>key \<in> set (map fst ([] :: (string \<times> json) list)). py_in key ?meta = Inr False"
    by simp_all
  note r1 = absent_keys_never_selected [OF t1 k1] and r2 = absent_keys_never_selected [OF t2 k2]
  from r1 have "classify ?meta ([] @ mapping_entry ''d'' [(''k'', JStr ''v'')] # [mapping_entry ''e'' []]) ?fb
      = classify ?meta ([] @ [mapping_entry ''e'' []]) ?fb" by blast
  moreover from r2 have "classify ?meta ([] @ mapping_entry ''e'' [] # []) ?fb
      = classify ?meta ([] @ []) ?fb" by blast
  moreover have "classify ?meta [] ?fb = Inr (Some ''DoNotUse'')"
    by (simp add: classify_def target_dir_of_def mapping_entry_def dict_get_def)
  ultimately have "classify ?meta [mapping_entry ''d'' [(''k'', JStr ''v'')], mapping_entry ''e'' []] ?fb
      = Inr (Some ''DoNotUse'')" by simp
  with r1 r2 show ?thesis by simp
qed

subsection \<open>The fallback mapping\<close>

lemma py_eq_JStr: "py_eq x (JStr s) = (x = JStr s)"
  by (cases x) auto

text \<open>
  A qualifying entry is a non-empty dictionary, sends a file to \<open>DoNotUse\<close> when it is
  the fallback, and never matches when it stands among the normal mappings.
\<close>

lemma qualifies_props:
  assumes "qualifies m"
  shows "truthy m" and "target_dir_of m = Inr (Some ''DoNotUse'')" and "all_match meta m = Inr False"
proof -
  from assms obtain kvs where m: "m = JObj kvs"
    and d: "dict_get kvs ''directory'' JNull = JStr ''DoNotUse''"
    and t: "\<not> truthy (dict_get kvs ''target'' (JObj []))"
    by (cases m) (auto simp add: qualifies_def is_donotuse_def py_eq_JStr)
  from d have "kvs \<noteq> []" by (auto simp add: dict_get_def)
  then show "truthy m" by (simp add: m)
  from d show "target_dir_of m = Inr (Some ''DoNotUse'')" by (simp add: m target_dir_of_def)
  from t show "all_match meta m = Inr False" by (simp add: m all_match_def)
qed

lemma separate_result:
  "separate entries d n = Inr (fb, normal) \<Longrightarrow>
     normal = n @ filter (\<lambda>m. \<not> qualifies m) entries \<and>
     fb = (case filter qualifies entries of [] \<Rightarrow> d | q # qs \<Rightarrow> Some (last (q # qs)))"
proof (induction entries arbitrary: d n)
  case Nil
  then show ?case by simp
next
  case (Cons m entries)
  from Cons.prems obtain kvs where m: "m = JObj kvs"
    by (cases m) auto
  show ?case
  proof (cases "qualifies m")
    case True
    with Cons.prems have "separate entries (Some m) n = Inr (fb, normal)"
      by (simp add: m qualifies_def)
    from Cons.IH [OF this] True show ?thesis
      by (simp split: list.splits)
  next
    case False
    with Cons.prems have "separate entries d (n @ [m]) = Inr (fb, normal)"
      by (simp add: m qualifies_def)
    from Cons.IH [OF this] False show ?thesis
      by simp
  qed
qed

lemma first_match_unqualified:
  "first_match meta (filter (\<lambda>m. \<not> qualifies m) entries) = first_match meta entries"
  by (induction entries) (simp_all add: qualifies_props(3) cong: if_cong option.case_cong)

lemma first_match_spec_conditional:
  "first_match meta (spec_conditional entries) = first_match meta entries"
  by (induction entries) (simp_all add: qualifies_props(3) cong: if_cong option.case_cong)

lemma fallback_same:
  assumes "qualifies a" and "qualifies b"
  shows "(if truthy a then target_dir_of a else Inr None) = (if truthy b then target_dir_of b else Inr None)"
  using assms by (simp add: qualifies_props)

lemma find_filter: "List.find P xs = (case filter P xs of [] \<Rightarrow> None | q # qs \<Rightarrow> Some q)"
  by (induction xs) auto

text \<open>
  C6, as the code has it. When the rule list separates without an exception, the normal
  mappings are the entries that do not qualify, in stored order (among them the entries
  with the label \<open>DoNotUse\<close> that have conditions), and the fallback is the last
  qualifying entry; the other qualifying entries are dropped. Every file is nevertheless
  classified as under the reading of the specification, with the first qualifying entry as
  fallback and all the other entries as conditional rules.
\<close>

theorem separate_keeps_last_donotuse:
  assumes "separate entries None [] = Inr (fallback, normal)"
  shows "normal = filter (\<lambda>m. \<not> qualifies m) entries \<and>
         fallback = (case filter qualifies entries of [] \<Rightarrow> None | q # qs \<Rightarrow> Some (last (q # qs))) \<and>
         (\<forall>meta. classify meta normal fallback =
                  classify meta (spec_conditional entries) (spec_fallback entries))"
proof -
  from separate_result [OF assms]
  have n: "normal = filter (\<lambda>m. \<not> qualifies m) entries"
    and f: "fallback = (case filter qualifies entries of [] \<Rightarrow> None | q # qs \<Rightarrow> Some (last (q # qs)))"
    by simp_all
  have "classify meta normal fallback = classify meta (spec_conditional entries) (spec_fallback entries)"
    for meta
  proof (cases "filter qualifies entries")
    case Nil
    then show ?thesis
      by (simp add: classify_def n f first_match_unqualified first_match_spec_conditional
          spec_fallback_def find_filter)
  next
    case (Cons q qs)
    have "last (q # qs) \<in> set (filter qualifies entries)"
      unfolding Cons by (rule last_in_set) simp
    then have l: "qualifies (last (q # qs))" by simp
    have "q \<in> set (filter qualifies entries)" unfolding Cons by simp
    then have q: "qualifies q" by simp
    show ?thesis
      using fallback_same [OF l q]
      by (simp add: classify_def n f first_match_unqualified first_match_spec_conditional
          spec_fallback_def find_filter Cons del: last.simps cong: option.case_cong)
  qed
  with n f show ?thesis by blast
qed

text \<open>
  A rule list with two qualifying entries around an entry that has the label \<open>DoNotUse\<close>
  and a condition: the second qualifying entry is the fallback, the entry with the
  condition is the one normal mapping, and a file it does not match goes to \<open>DoNotUse\<close>
  under both readings.
\<close>

theorem separate_keeps_last_donotuse_witness:
  "separate
     [JObj [(''directory'', JStr ''DoNotUse''), (''target'', JObj []), (''note'', JStr ''first'')],
      mapping_entry ''DoNotUse'' [(''k'', JStr ''v'')],
      JObj [(''directory'', JStr ''DoNotUse''), (''target'', JObj []), (''note'', JStr ''second'')]]
     None [] =
   Inr (Some (JObj [(''directory'', JStr ''DoNotUse''), (''target'', JObj []), (''note'', JStr ''second'')]),
        [mapping_entry ''DoNotUse'' [(''k'', JStr ''v'')]]) \<and>
   classify (JObj [(''k'', JStr ''u'')])
     (spec_conditional
        [JObj [(''directory'', JStr ''DoNotUse''), (''target'', JObj []), (''note'', JStr ''first'')],
         mapping_entry ''DoNotUse'' [(''k'', JStr ''v'')],
         JObj [(''directory'', JStr ''DoNotUse''), (''target'', JObj []), (''note'', JStr ''second'')]])
     (spec_fallback
        [JObj [(''directory'', JStr ''DoNotUse''), (''target'', JObj []), (''note'', JStr ''first'')],
         mapping_entry ''DoNotUse'' [(''k'', JStr ''v'')],
         JObj [(''directory'', JStr ''DoNotUse''), (''target'', JObj []), (''note'', JStr ''second'')]])
     = Inr (Some ''DoNotUse'')"
proof -
  let ?e1 = "JObj [(''directory'', JStr ''DoNotUse''), (''target'', JObj []), (''note'', JStr ''first'')]"
  let ?e2 = "JObj [(''directory'', JStr ''DoNotUse''), (''target'', JObj []), (''note'', JStr ''second'')]"
  let ?r = "mapping_entry ''DoNotUse'' [(''k'', JStr ''v'')]"
  have s: "separate [?e1, ?r, ?e2] None [] = Inr (Some ?e2, [?r])"
    by code_simp
  have c: "classify (JObj [(''k'', JStr ''u'')]) [?r] (Some ?e2) = Inr (Some ''DoNotUse'')"
    by code_simp
  from separate_keeps_last_donotuse [OF s]
  have "classify (JObj [(''k'', JStr ''u'')]) [?r] (Some ?e2) =
        classify (JObj [(''k'', JStr ''u'')]) (spec_conditional [?e1, ?r, ?e2]) (spec_fallback [?e1, ?r, ?e2])"
    by blast
  with s c show ?thesis by simp
qed

text \<open>
  C6 as stated fails on a rule list with two qualifying entries: the fallback the code
  keeps is the second, not the first, and the first is not among the normal mappings.
\<close>

theorem first_donotuse_counterexample:
  "qualifies (JObj [(''directory'', JStr ''DoNotUse''), (''target'', JObj []), (''note'', JStr ''first'')]) \<and>
   qualifies (JObj [(''directory'', JStr ''DoNotUse''), (''target'', JObj []), (''note'', JStr ''second'')]) \<and>
   load_mappings (JObj [(''mapdata'', JObj [(''sorted'', JArr
     [JObj [(''directory'', JStr ''DoNotUse''), (''target'', JObj []), (''note'', JStr ''first'')],
      JObj [(''directory'', JStr ''DoNotUse''), (''target'', JObj []), (''note'', JStr ''second'')]])])]) =
   Inr (Some (JObj [(''directory'', JStr ''DoNotUse''), (''target'', JObj []), (''note'', JStr ''second'')]),
        [])"
  by code_simp

subsection \<open>A malformed rule file\<close>

lemma sort_loop_no_rules: "fst (sort_loop [] None files moves) = moves"
  by (induction files arbitrary: moves)
     (auto simp add: classify_def split: sum.splits option.splits)

text \<open>
  A rule list separates exactly when all its entries are dictionaries, whatever their
  conditions are.
\<close>

lemma separate_objects:
  "\<forall>entry \<in> set entries. \<exists>kvs. entry = JObj kvs \<Longrightarrow> \<exists>r. separate entries d n = Inr r"
proof (induction entries arbitrary: d n)
  case Nil
  then show ?case by simp
next
  case (Cons m entries)
  from Cons.prems obtain kvs where m: "m = JObj kvs" by auto
  from Cons.prems have "\<forall>entry \<in> set entries. \<exists>kvs. entry = JObj kvs" by simp
  from Cons.IH [OF this] show ?case by (simp add: m)
qed


lemma separate_non_object:
  "\<exists>entry \<in> set entries. \<forall>kvs. entry \<noteq> JObj kvs \<Longrightarrow> separate entries d n = Inl AttributeError"
proof (induction entries arbitrary: d n)
  case Nil
  then show ?case by simp
next
  case (Cons m entries)
  show ?case
  proof (cases m)
    case (JObj kvs)
    with Cons.prems have "\<exists>entry \<in> set entries. \<forall>kvs. entry \<noteq> JObj kvs" by auto
    from Cons.IH [OF this] JObj show ?thesis by simp
  qed simp_all
qed

text \<open>
  C7, as the code has it. The rule file is not validated. When reading the rule list
  raises, the pass ends with that exception before any file is looked at, and nothing is
  moved; reading raises when the rule file is not a dictionary and when an entry of the
  rule list is not a dictionary, and it does not raise over the conditions of an entry that
  is one. A rule file without the \<open>mapdata\<close> section, or without
  the \<open>sorted\<close> section in it, is no error: it reads as the empty rule list with no
  fallback, and the pass moves nothing.
\<close>

theorem rule_file_load:
  "(load_mappings mapdata = Inl e \<longrightarrow> sort_files_by_mapdata files mapdata = ([], Some e)) \<and>
   ((\<forall>kvs. mapdata \<noteq> JObj kvs) \<longrightarrow> load_mappings mapdata = Inl AttributeError) \<and>
   ((\<exists>entry \<in> set entries. \<forall>kvs. entry \<noteq> JObj kvs) \<longrightarrow>
      load_mappings (JObj [(''mapdata'', JObj [(''sorted'', JArr entries)])]) = Inl AttributeError) \<and>
   ((\<forall>entry \<in> set entries. \<exists>kvs. entry = JObj kvs) \<longrightarrow>
      (\<exists>r. load_mappings (JObj [(''mapdata'', JObj [(''sorted'', JArr entries)])]) = Inr r)) \<and>
   ((map_of doc ''mapdata'' = None \<or>
     (map_of doc ''mapdata'' = Some (JObj sec) \<and> map_of sec ''sorted'' = None)) \<longrightarrow>
    load_mappings (JObj doc) = Inr (None, []) \<and> fst (sort_files_by_mapdata files (JObj doc)) = [])"
proof -
  have a: "load_mappings mapdata = Inl e \<longrightarrow> sort_files_by_mapdata files mapdata = ([], Some e)"
    by (simp add: sort_files_by_mapdata_def)
  have b: "(\<forall>kvs. mapdata \<noteq> JObj kvs) \<longrightarrow> load_mappings mapdata = Inl AttributeError"
    by (cases mapdata) (simp_all add: load_mappings_def)
  have c: "(\<exists>entry \<in> set entries. \<forall>kvs. entry \<noteq> JObj kvs) \<longrightarrow>
      load_mappings (JObj [(''mapdata'', JObj [(''sorted'', JArr entries)])]) = Inl AttributeError"
    by (simp add: load_mappings_def dict_get_def separate_non_object)
  have c': "(\<forall>entry \<in> set entries. \<exists>kvs. entry = JObj kvs) \<longrightarrow>
      (\<exists>r. load_mappings (JObj [(''mapdata'', JObj [(''sorted'', JArr entries)])]) = Inr r)"
  proof
    assume "\<forall>entry \<in> set entries. \<exists>kvs. entry = JObj kvs"
    from separate_objects [OF this] obtain r where "separate entries None [] = Inr r"
      by blast
    then show "\<exists>r. load_mappings (JObj [(''mapdata'', JObj [(''sorted'', JArr entries)])]) = Inr r"
      by (simp add: load_mappings_def dict_get_def)
  qed
  have d: "(map_of doc ''mapdata'' = None \<or>
     (map_of doc ''mapdata'' = Some (JObj sec) \<and> map_of sec ''sorted'' = None)) \<longrightarrow>
    load_mappings (JObj doc) = Inr (None, []) \<and> fst (sort_files_by_mapdata files (JObj doc)) = []"
    by (auto simp add: sort_files_by_mapdata_def load_mappings_def dict_get_def sort_loop_no_rules)
  from a b c c' d show ?thesis by blast
qed

text \<open>
  A rule file that is a list, and one whose rule list holds a string, raise
  \<open>AttributeError\<close> at once; a rule list whose one entry has the number 5 for its
  conditions is read without complaint; the rule file \<open>{}\<close> and the rule file
  \<open>{"mapdata": {}}\<close> read as no rules at all.
\<close>

theorem rule_file_load_witness:
  "sort_files_by_mapdata [legacy_file ''a.vrm'' [(''allowedUserName'', JStr ''Everyone'')]] (JArr [])
     = ([], Some AttributeError) \<and>
   sort_files_by_mapdata [legacy_file ''a.vrm'' [(''allowedUserName'', JStr ''Everyone'')]]
     (JObj [(''mapdata'', JObj [(''sorted'', JArr [mapping_entry ''ok'' [], JStr ''folder-2''])])])
     = ([], Some AttributeError) \<and>
   (\<exists>r. load_mappings (JObj [(''mapdata'', JObj [(''sorted'', JArr
          [JObj [(''directory'', JStr ''bad''), (''target'', JInt 5)]])])]) = Inr r) \<and>
   load_mappings (JObj []) = Inr (None, []) \<and>
   fst (sort_files_by_mapdata [legacy_file ''a.vrm'' [(''allowedUserName'', JStr ''Everyone'')]] (JObj []))
     = [] \<and>
   load_mappings (JObj [(''mapdata'', JObj [])]) = Inr (None, []) \<and>
   fst (sort_files_by_mapdata [legacy_file ''a.vrm'' [(''allowedUserName'', JStr ''Everyone'')]]
          (JObj [(''mapdata'', JObj [])])) = []"
proof -
  let ?files = "[legacy_file ''a.vrm'' [(''allowedUserName'', JStr ''Everyone'')]]"
  let ?bad = "JObj [(''mapdata'', JObj [(''sorted'', JArr [mapping_entry ''ok'' [], JStr ''folder-2''])])]"
  have n: "\<forall>kvs. JArr [] \<noteq> JObj kvs"
    by simp
  have s: "\<exists>entry \<in> set [mapping_entry ''ok'' [], JStr ''folder-2'']. \<forall>kvs. entry \<noteq> JObj kvs"
    by simp
  have m1: "map_of ([] :: (string \<times> json) list) ''mapdata'' = None"
    by simp
  have m2: "map_of [(''mapdata'', JObj [])] ''mapdata'' = Some (JObj []) \<and>
            map_of ([] :: (string \<times> json) list) ''sorted'' = None"
    by simp
  from rule_file_load [of "JArr []" AttributeError ?files "[]" "[]" "[]"] n
  have a: "sort_files_by_mapdata ?files (JArr []) = ([], Some AttributeError)"
    by simp
  from rule_file_load [of ?bad AttributeError ?files "[mapping_entry ''ok'' [], JStr ''folder-2'']" "[]" "[]"] s
  have a': "sort_files_by_mapdata ?files ?bad = ([], Some AttributeError)"
    by simp
  have o: "\<forall>entry \<in> set [JObj [(''directory'', JStr ''bad''), (''target'', JInt 5)]].
             \<exists>kvs. entry = JObj kvs"
    by simp
  from rule_file_load [of "JArr []" AttributeError ?files
      "[JObj [(''directory'', JStr ''bad''), (''target'', JInt 5)]]" "[]" "[]"] o
  have a'': "\<exists>r. load_mappings (JObj [(''mapdata'', JObj [(''sorted'', JArr
          [JObj [(''directory'', JStr ''bad''), (''target'', JInt 5)]])])]) = Inr r"
    by blast
  from rule_file_load [of "JArr []" AttributeError ?files "[]" "[]" "[]"] m1
  have b: "load_mappings (JObj []) = Inr (None, []) \<and> fst (sort_files_by_mapdata ?files (JObj [])) = []"
    by simp
  from rule_file_load [of "JArr []" AttributeError ?files "[]" "[(''mapdata'', JObj [])]" "[]"] m2
  have c: "load_mappings (JObj [(''mapdata'', JObj [])]) = Inr (None, []) \<and>
           fst (sort_files_by_mapdata ?files (JObj [(''mapdata'', JObj [])])) = []"
    by simp
  from a a' a'' b c show ?thesis by simp
qed

text \<open>
  C7 as stated fails twice. The rule file \<open>{}\<close>, which has neither section, is no error:
  the pass ends normally and the file stays. And a rule file whose second entry has the
  number 5 for its conditions is noticed only when a file reaches that entry: the first
  file has been moved by the first entry when the second file makes the pass raise.
\<close>

theorem rule_file_counterexample:
  "sort_files_by_mapdata [legacy_file ''a.vrm'' [(''allowedUserName'', JStr ''Everyone'')]] (JObj [])
     = ([], None) \<and>
   sort_files_by_mapdata
     [legacy_file ''a.vrm'' [(''allowedUserName'', JStr ''Everyone'')],
      legacy_file ''b.vrm'' [(''allowedUserName'', JStr ''OnlyAuthor'')]]
     (JObj [(''mapdata'', JObj [(''sorted'', JArr
        [mapping_entry ''ok'' [(''allowedUserName'', JStr ''Everyone'')],
         JObj [(''directory'', JStr ''bad''), (''target'', JInt 5)]])])])
     = ([(''a.vrm'', ''ok'')], Some AttributeError)"
  by code_simp

end
